theory Spec2Isabelle
  imports Complex_Main
begin

section \<open>The Heston moment formulas of \<^verbatim>\<open>pyfeng/heston.py\<close>\<close>

text \<open>
  The source computes with IEEE doubles through Python and numpy. This development
  reads every arithmetic operation over the real numbers: \<open>+\<close>, \<open>*\<close>, \<open>/\<close>, \<open>**2\<close>,
  \<open>np.exp\<close> and \<open>np.sqrt\<close> are the exact operations, so rounding, overflow and
  cancellation are outside the model, and no theorem below speaks about the rounded
  result of a double evaluation.

  The attributes of an instance and the arguments of a call are Python numbers;
  \<^verbatim>\<open>np.exp\<close> and \<^verbatim>\<open>np.sqrt\<close> return numpy scalars, and so does every expression that
  has one as an operand. Where the source leaves the real numbers the model returns a
  failure instead of a number:

  \<^item> \<open>DivisionByZero\<close>: a quotient of two Python numbers with a zero divisor, which
    raises \<^verbatim>\<open>ZeroDivisionError\<close>;
  \<^item> \<open>NotANumber\<close>: a quotient with a numpy scalar as an operand and a zero divisor,
    or \<^verbatim>\<open>np.sqrt\<close> of a negative number; numpy warns, nothing is raised, and the value
    that the method goes on with and returns is a NaN or an infinity;
  \<^item> \<open>NotImplementedOrder\<close>: the \<^verbatim>\<open>ValueError\<close> that \<^verbatim>\<open>price\<close> raises for an order
    above 2.
\<close>

datatype failure =
    DivisionByZero
  | NotANumber
  | NotImplementedOrder real

subsection \<open>Model parameters\<close>

text \<open>
  The attributes of a model instance that the methods read. The first seven belong to
  the base class \<^verbatim>\<open>sv.SvABC\<close>, which is outside this file; \<open>order\<close> is the class
  attribute of \<^verbatim>\<open>HestonUncorrBallRoma1994\<close> (2 unless an instance or a subclass
  overrides it), a Python number.
\<close>

record heston =
  sigma :: real
  vov :: real
  rho :: real
  mr :: real
  theta :: real
  intr :: real
  divr :: real
  order :: real

subsection \<open>The collaborators from outside the file\<close>

text \<open>
  \<^verbatim>\<open>bsm.Bsm(sigma, intr=..., divr=...)\<close> builds a Black-Scholes-Merton model whose
  methods \<^verbatim>\<open>price\<close> and \<^verbatim>\<open>d2_var\<close> take \<open>(strike, spot, texp, cp)\<close>. The module
  \<^verbatim>\<open>bsm\<close> is not part of these sources, so the constructor is a parameter of \<open>price\<close>
  below and nothing is assumed about the two methods.
\<close>

record bsm_model =
  bsm_price :: "real \<Rightarrow> real \<Rightarrow> real \<Rightarrow> real \<Rightarrow> real"
  d2_var :: "real \<Rightarrow> real \<Rightarrow> real \<Rightarrow> real \<Rightarrow> real"

type_synonym bsm_ctor = "real \<Rightarrow> real \<Rightarrow> real \<Rightarrow> bsm_model"

text \<open>
  \<^verbatim>\<open>np.isclose(a, b)\<close> with numpy's default tolerances \<open>rtol = 1e-05\<close> and
  \<open>atol = 1e-08\<close>: \<open>|a - b| <= atol + rtol * |b|\<close>.
\<close>

definition isclose :: "real \<Rightarrow> real \<Rightarrow> bool" where
  "isclose a b = (\<bar>a - b\<bar> \<le> 1 / 10 ^ 8 + 1 / 10 ^ 5 * \<bar>b\<bar>)"

text \<open>
  Python's \<^verbatim>\<open>a or b\<close> on an optional number: \<open>b\<close> when \<open>a\<close> is falsy, which \<^verbatim>\<open>None\<close>
  is and the number zero is too.
\<close>

definition py_or :: "real option \<Rightarrow> real \<Rightarrow> real" where
  "py_or a b = (case a of None \<Rightarrow> b | Some x \<Rightarrow> if x = 0 then b else x)"

subsection \<open>\<^verbatim>\<open>HestonABC.var_mv\<close>\<close>

text \<open>
  The one division has the numpy scalar \<open>self.vov**2*(1 - expo)\<close> as its dividend: with
  \<open>mr = 0\<close> it is \<open>0/0\<close>, and the variance returned is a NaN.
\<close>

definition var_mv :: "heston \<Rightarrow> real \<Rightarrow> real \<Rightarrow> failure + real \<times> real" where
  "var_mv p var0 dt =
     (let expo = exp (- mr p * dt);
          m = theta p + (var0 - theta p) * expo;
          s2 = var0 * expo + theta p * (1 - expo) / 2
      in if mr p = 0 then Inl NotANumber
         else let s2 = s2 * ((vov p)\<^sup>2 * (1 - expo) / mr p)
              in Inr (m, s2))"

subsection \<open>\<^verbatim>\<open>HestonABC.avgvar_mv\<close>\<close>

text \<open>
  The argument \<open>var0\<close> is optional (\<^verbatim>\<open>var0=None\<close>) and the first statement is
  \<^verbatim>\<open>var0 = var0 or self.sigma\<close>. The three divisions all divide by \<open>mr_t\<close>. The first
  two have a numpy scalar as their dividend; the third, \<^verbatim>\<open>self.vov/mr_t\<close>, is a
  quotient of two Python numbers, so with \<open>mr_t = 0\<close> the method raises there.
\<close>

definition avgvar_mv :: "heston \<Rightarrow> real \<Rightarrow> real option \<Rightarrow> failure + real \<times> real" where
  "avgvar_mv p texp var0_arg =
     (let var0 = py_or var0_arg (sigma p);
          mr_t = mr p * texp;
          e_mr_t = exp (- mr_t);
          x0 = var0 - theta p
      in if mr_t = 0 then Inl DivisionByZero
         else let mean = theta p + x0 * (1 - e_mr_t) / mr_t;
                  var = (theta p - 2 * x0 * e_mr_t)
                        + (1 - e_mr_t) * (var0 - 2.5 * theta p + (var0 - theta p / 2) * e_mr_t) / mr_t;
                  var = var * ((vov p / mr_t)\<^sup>2 * texp)
              in Inr (mean, var))"

subsection \<open>\<^verbatim>\<open>HestonABC.varswap\<close>\<close>

text \<open>
  \<open>n_per_yr\<close> is \<^verbatim>\<open>None\<close> for continuous monitoring. The variable \<open>tmp\<close> is assigned
  twice and \<open>strike\<close> is updated by four \<^verbatim>\<open>+=\<close>. The divisors of the discrete
  adjustment are, in the order of the source: \<open>n_per_yr\<close>, \<open>4*n_per_yr\<close>, \<open>mr_t\<close>,
  \<open>self.mr\<close>, \<open>mr_a\<close>, \<open>e_mr_a\<close>, \<open>1 - 1/e_mr_a\<close>, \<open>8*mr_t\<close> and \<open>1 + e_mr_a\<close>.
  The quotients \<^verbatim>\<open>self.mr/n_per_yr\<close>, \<^verbatim>\<open>tmp/(4*n_per_yr)\<close>, \<^verbatim>\<open>self.vov / self.mr\<close> and
  \<^verbatim>\<open>2*x0**2/self.mr\<close> are quotients of Python numbers and raise on a zero divisor;
  the others have a numpy scalar as an operand and give a NaN or an infinity, with
  which the method goes on. With \<open>mr_t = 0\<close> the base strike is \<open>theta + 0/0\<close> already.
\<close>

definition varswap :: "heston \<Rightarrow> real \<Rightarrow> real option \<Rightarrow> failure + real" where
  "varswap p texp n_per_yr =
     (let var0 = sigma p;
          mr_t = mr p * texp;
          e_mr_t = exp (- mr_t);
          x0 = var0 - theta p;
          strike = theta p + x0 * (1 - e_mr_t) / mr_t
      in case n_per_yr of
           None \<Rightarrow> if mr_t = 0 then Inl NotANumber else Inr strike
         | Some n \<Rightarrow>
             if n = 0 then Inl DivisionByZero
             else
               let mr_a = mr p / n;
                   e_mr_a = exp (- mr_a)
               in if 4 * n = 0 \<or> mr p = 0 then Inl DivisionByZero
                  else if mr_t = 0 \<or> mr_a = 0 \<or> e_mr_a = 0 \<or> 1 - 1 / e_mr_a = 0
                          \<or> 8 * mr_t = 0 \<or> 1 + e_mr_a = 0
                  then Inl NotANumber
                  else
                    let tmp = theta p - 2 * intr p;
                        strike = strike + tmp / (4 * n) * (tmp + 2 * x0 * (1 - e_mr_t) / mr_t);
                        tmp = vov p / mr p;
                        strike = strike + theta p * tmp * (tmp / 4 - rho p)
                                          * (1 - (1 - e_mr_a) / mr_a);
                        strike = strike + x0 * tmp * (tmp / 2 - rho p) * (1 - e_mr_t) / mr_t
                                          * (1 + mr_a / (1 - 1 / e_mr_a));
                        strike = strike + (tmp\<^sup>2 * (theta p - 2 * var0) + 2 * x0\<^sup>2 / mr p)
                                          * (1 - e_mr_t\<^sup>2) / (8 * mr_t)
                                          * (1 - e_mr_a) / (1 + e_mr_a)
                    in Inr strike)"

subsection \<open>\<^verbatim>\<open>HestonUncorrBallRoma1994.price\<close>\<close>

text \<open>
  The \<^verbatim>\<open>print\<close> of the method is its only effect; the model returns what was printed
  next to the outcome. The text of the line is \<^verbatim>\<open>Pricing ignores rho = {self.rho}.\<close>;
  the event carries the number.
\<close>

datatype event = PricingIgnoresRho real

text \<open>
  A price computed from a NaN volatility is not a real number: \<^verbatim>\<open>np.sqrt(avgvar)\<close> is
  NaN for a negative \<open>avgvar\<close>, nothing is raised there, and the method goes on to its
  test of the order with a NaN price.
\<close>

definition returned :: "real \<Rightarrow> real \<Rightarrow> failure + real" where
  "returned avgvar price = (if avgvar < 0 then Inl NotANumber else Inr price)"

text \<open>The default of the last argument, \<^verbatim>\<open>cp=1\<close>.\<close>

definition cp_arg :: "real option \<Rightarrow> real" where
  "cp_arg cp = (case cp of None \<Rightarrow> 1 | Some c \<Rightarrow> c)"

definition price ::
  "bsm_ctor \<Rightarrow> heston \<Rightarrow> real \<Rightarrow> real \<Rightarrow> real \<Rightarrow> real option \<Rightarrow> event list \<times> (failure + real)"
where
  "price Bsm p strike spot texp cp_opt =
     (let cp = cp_arg cp_opt;
          printed = (if \<not> isclose (rho p) 0 then [PricingIgnoresRho (rho p)] else [])
      in (printed,
          case avgvar_mv p texp None of
            Inl f \<Rightarrow> Inl f
          | Inr (avgvar, var) \<Rightarrow>
              let m_bs = Bsm (sqrt avgvar) (intr p) (divr p);
                  price = bsm_price m_bs strike spot texp cp
              in if order p = 2
                 then returned avgvar (price + 0.5 * var * d2_var m_bs strike spot texp cp)
                 else if order p > 2 then Inl (NotImplementedOrder (order p))
                 else returned avgvar price))"

subsection \<open>The formulas as the specification writes them\<close>

text \<open>
  Second definitions, written from the words of the specification and independent of
  the code above; the theorems compare the two.
\<close>

definition varianceMoments :: "heston \<Rightarrow> real \<Rightarrow> real \<Rightarrow> real \<times> real" where
  "varianceMoments p var0 dt =
     (let e = exp (- (mr p * dt))
      in (theta p + (var0 - theta p) * e,
          (var0 * e + theta p * (1 - e) / 2) * (vov p)\<^sup>2 * (1 - e) / mr p))"

definition averageVarianceMoments :: "heston \<Rightarrow> real \<Rightarrow> real \<Rightarrow> real \<times> real" where
  "averageVarianceMoments p texp var0 =
     (let a = mr p * texp;
          e = exp (- a);
          x0 = var0 - theta p;
          rawVar = (theta p - 2 * x0 * e)
                   + (1 - e) * (var0 - 2.5 * theta p + (var0 - theta p / 2) * e) / a
      in (theta p + x0 * (1 - e) / a, rawVar * (vov p / a)\<^sup>2 * texp))"

definition baseStrike :: "heston \<Rightarrow> real \<Rightarrow> real" where
  "baseStrike p texp =
     (let a = mr p * texp; e = exp (- a); x0 = sigma p - theta p
      in theta p + x0 * (1 - e) / a)"

definition rateTerm :: "heston \<Rightarrow> real \<Rightarrow> real \<Rightarrow> real" where
  "rateTerm p texp n_per_yr =
     (let a = mr p * texp; e = exp (- a); x0 = sigma p - theta p;
          tmp1 = theta p - 2 * intr p
      in tmp1 / (4 * n_per_yr) * (tmp1 + 2 * x0 * (1 - e) / a))"

definition vovTerm :: "heston \<Rightarrow> real \<Rightarrow> real" where
  "vovTerm p n_per_yr =
     (let tmp2 = vov p / mr p; aMon = mr p / n_per_yr; eMon = exp (- aMon)
      in theta p * tmp2 * (tmp2 / 4 - rho p) * (1 - (1 - eMon) / aMon))"

definition crossTerm :: "heston \<Rightarrow> real \<Rightarrow> real \<Rightarrow> real" where
  "crossTerm p texp n_per_yr =
     (let a = mr p * texp; e = exp (- a); x0 = sigma p - theta p;
          tmp2 = vov p / mr p; aMon = mr p / n_per_yr; eMon = exp (- aMon)
      in x0 * tmp2 * (tmp2 / 2 - rho p) * (1 - e) / a * (1 + aMon / (1 - 1 / eMon)))"

definition convexityTerm :: "heston \<Rightarrow> real \<Rightarrow> real \<Rightarrow> real" where
  "convexityTerm p texp n_per_yr =
     (let a = mr p * texp; e = exp (- a); x0 = sigma p - theta p; var0 = sigma p;
          tmp2 = vov p / mr p; aMon = mr p / n_per_yr; eMon = exp (- aMon)
      in (tmp2\<^sup>2 * (theta p - 2 * var0) + 2 * x0\<^sup>2 / mr p)
         * (1 - e\<^sup>2) / (8 * a) * (1 - eMon) / (1 + eMon))"

subsection \<open>Outcomes that are exceptions\<close>


subsection \<open>An auxiliary function for the sign of the variance formula\<close>

text \<open>
  With \<open>a = mr * texp\<close> and \<open>e = exp (- a)\<close>, the variance formula of the specification
  is \<open>(var0 * (2 * (1 - e\<^sup>2) - 4 * a * e) + theta * gfun a) / (2 * a)\<close> times a square.
\<close>

definition gfun :: "real \<Rightarrow> real" where
  "gfun x = 2 * x + 4 * x * exp (- x) - 5 + 4 * exp (- x) + (exp (- x))\<^sup>2"

subsection \<open>Concrete inputs\<close>

text \<open>
  The scenario of the specification, \<open>mr = 1.5\<close>, \<open>theta = 0.04\<close>, \<open>vov = 0.3\<close>,
  \<open>rho = 0\<close>, \<open>sigma = 0.04\<close>, \<open>intr = divr = 0\<close>, with the default order 2.
\<close>

definition scenario :: heston where
  "scenario = \<lparr>sigma = 0.04, vov = 0.3, rho = 0, mr = 1.5, theta = 0.04,
               intr = 0, divr = 0, order = 2\<rparr>"

text \<open>
  A stand-in for the external pricer, to run \<open>price\<close> on: its price is the volatility
  times the spot and its second derivative is 3.
\<close>

definition toyBsm :: bsm_ctor where
  "toyBsm vol r q = \<lparr>bsm_price = (\<lambda>strike spot texp cp. vol * spot),
                      d2_var = (\<lambda>strike spot texp cp. 3)\<rparr>"

section \<open>Properties\<close>

subsection \<open>The code against the formulas, away from the singular inputs\<close>

lemma py_or_simps:
  "py_or None b = b" "py_or (Some 0) b = b" "x \<noteq> 0 \<Longrightarrow> py_or (Some x) b = x"
  by (simp_all add: py_or_def)

lemma py_or_same: "py_or (Some b) b = b"
  by (simp add: py_or_def)

lemma var_mv_regular:
  "mr p \<noteq> 0 \<Longrightarrow> var_mv p var0 dt = Inr (varianceMoments p var0 dt)"
  by (simp add: var_mv_def varianceMoments_def Let_def)

lemma avgvar_mv_regular:
  "mr p * texp \<noteq> 0 \<Longrightarrow>
   avgvar_mv p texp arg = Inr (averageVarianceMoments p texp (py_or arg (sigma p)))"
  by (simp add: avgvar_mv_def averageVarianceMoments_def Let_def)

lemma avgvar_mv_singular:
  "mr p * texp = 0 \<Longrightarrow> avgvar_mv p texp arg = Inl DivisionByZero"
  by (simp add: avgvar_mv_def Let_def)

lemma varswap_continuous_regular:
  "mr p * texp \<noteq> 0 \<Longrightarrow> varswap p texp None = Inr (baseStrike p texp)"
  by (simp add: varswap_def baseStrike_def Let_def)

lemma var_mv_singular:
  "mr p = 0 \<Longrightarrow> var_mv p var0 dt = Inl NotANumber"
  by (simp add: var_mv_def Let_def)

lemma varswap_singular:
  "n = 0 \<or> mr p = 0 \<Longrightarrow> varswap p texp (Some n) = Inl DivisionByZero"
  "mr p \<noteq> 0 \<Longrightarrow> n \<noteq> 0 \<Longrightarrow> varswap p 0 (Some n) = Inl NotANumber"
  "mr p * texp = 0 \<Longrightarrow> varswap p texp None = Inl NotANumber"
  by (auto simp: varswap_def Let_def)

subsection \<open>The outcome and the output of \<open>price\<close>\<close>


lemma price_regular:
  assumes "mr p * texp \<noteq> 0"
    and "averageVarianceMoments p texp (sigma p) = (m, v)"
  shows "snd (price Bsm p strike spot texp cp) =
           (if order p = 2
            then returned m (bsm_price (Bsm (sqrt m) (intr p) (divr p)) strike spot texp (cp_arg cp)
                             + 0.5 * v * d2_var (Bsm (sqrt m) (intr p) (divr p)) strike spot texp (cp_arg cp))
            else if order p > 2 then Inl (NotImplementedOrder (order p))
            else returned m (bsm_price (Bsm (sqrt m) (intr p) (divr p)) strike spot texp (cp_arg cp)))"
  using assms by (simp add: price_def avgvar_mv_regular py_or_def Let_def)

text \<open>
  The division by zero of \<open>avgvar_mv\<close> comes before the test of the order: at a singular
  input the failure is the division, whatever the order.
\<close>

lemma price_singular:
  "mr p * texp = 0 \<Longrightarrow> snd (price Bsm p strike spot texp cp) = Inl DivisionByZero"
  by (simp add: price_def avgvar_mv_singular Let_def)


subsection \<open>The moment equations of the variance\<close>

text \<open>
  The diffusion \<open>dV = mr (theta - V) dt + vov sqrt V dW\<close> has the conditional mean \<open>M\<close>
  and variance \<open>V\<close> that solve \<open>M' = mr (theta - M)\<close> and
  \<open>V' = vov\<^sup>2 M - 2 mr V\<close> from \<open>M 0 = var0\<close> and \<open>V 0 = 0\<close>. The two formulas
  solve these equations.
\<close>

lemma mean_deriv:
  "((\<lambda>t. fst (varianceMoments p var0 t)) has_real_derivative
      mr p * (theta p - fst (varianceMoments p var0 t))) (at t)"
  unfolding varianceMoments_def Let_def fst_conv
  by (auto intro!: derivative_eq_intros simp: algebra_simps)

lemma var_deriv:
  assumes "mr p \<noteq> 0"
  shows "((\<lambda>t. snd (varianceMoments p var0 t)) has_real_derivative
            (vov p)\<^sup>2 * fst (varianceMoments p var0 t)
            - 2 * mr p * snd (varianceMoments p var0 t)) (at t)"
  unfolding varianceMoments_def Let_def fst_conv snd_conv
  using assms
  by (auto intro!: derivative_eq_intros simp: field_simps power2_eq_square)

subsection \<open>The sign of the variance of the average variance\<close>

lemma sinh_bound:
  fixes a :: real
  assumes "0 \<le> a"
  shows "2 * a * exp (- a) \<le> 1 - (exp (- a))\<^sup>2"
proof -
  have "a \<le> (exp a - inverse (exp a)) / 2"
    using real_le_x_sinh [OF assms] .
  then have "2 * a \<le> exp a - exp (- a)"
    by (simp add: exp_minus)
  then have "2 * a * exp (- a) \<le> (exp a - exp (- a)) * exp (- a)"
    by (intro mult_right_mono) simp_all
  also have "\<dots> = 1 - (exp (- a))\<^sup>2"
    by (simp add: algebra_simps power2_eq_square exp_minus)
  finally show ?thesis .
qed

lemma gfun_deriv:
  "(gfun has_real_derivative (2 * (1 - (exp (- x))\<^sup>2 - 2 * x * exp (- x)))) (at x)"
  unfolding gfun_def
  by (auto intro!: derivative_eq_intros simp: algebra_simps power2_eq_square)

lemma gfun_nonneg:
  assumes "0 \<le> a"
  shows "0 \<le> gfun a"
proof -
  have "gfun 0 \<le> gfun a"
  proof (rule DERIV_nonneg_imp_nondecreasing [OF assms])
    fix x :: real
    assume "0 \<le> x" "x \<le> a"
    then have "0 \<le> 2 * (1 - (exp (- x))\<^sup>2 - 2 * x * exp (- x))"
      using sinh_bound [of x] by simp
    then show "\<exists>y. (gfun has_real_derivative y) (at x) \<and> 0 \<le> y"
      using gfun_deriv by blast
  qed
  then show ?thesis by (simp add: gfun_def)
qed

lemma rawVar_nonneg:
  fixes a v th e :: real
  assumes "0 < a" "0 \<le> v" "0 \<le> th" and e: "e = exp (- a)"
  shows "0 \<le> (th - 2 * (v - th) * e) + (1 - e) * (v - 2.5 * th + (v - th / 2) * e) / a"
proof -
  have A: "0 \<le> 1 - e\<^sup>2 - 2 * a * e"
    using sinh_bound [of a] assms by simp
  have B: "0 \<le> 2 * a + 4 * a * e - 5 + 4 * e + e\<^sup>2"
    using gfun_nonneg [of a] assms by (simp add: gfun_def)
  have V: "0 \<le> v * (2 * (1 - e\<^sup>2 - 2 * a * e))"
    using A \<open>0 \<le> v\<close> by (intro mult_nonneg_nonneg) simp_all
  have T: "0 \<le> th * (2 * a + 4 * a * e - 5 + 4 * e + e\<^sup>2)"
    using \<open>0 \<le> th\<close> B by (rule mult_nonneg_nonneg)
  have "0 \<le> v * (2 * (1 - e\<^sup>2 - 2 * a * e)) + th * (2 * a + 4 * a * e - 5 + 4 * e + e\<^sup>2)"
    using V T by (rule add_nonneg_nonneg)
  also have "\<dots> = 2 * a * ((th - 2 * (v - th) * e)
                            + (1 - e) * (v - 2.5 * th + (v - th / 2) * e) / a)"
    using \<open>0 < a\<close> by (simp add: field_simps power2_eq_square)
  finally show ?thesis
    using \<open>0 < a\<close> by (simp add: zero_le_mult_iff)
qed

section \<open>The claims\<close>

subsection \<open>\<open>var_mv\<close>: the moments of the variance\<close>

text \<open>
  C6. For every parameter set with \<open>mr > 0\<close>, every \<open>var0\<close> and every \<open>dt \<ge> 0\<close>,
  \<open>var_mv\<close> returns the mean \<open>theta + (var0 - theta) * e\<close> and the variance
  \<open>(var0 * e + theta * (1 - e) / 2) * vov\<^sup>2 * (1 - e) / mr\<close> with \<open>e = exp (- mr * dt)\<close>.
  The claim adds that these are the first two conditional moments of the variance
  diffusion. The diffusion is no object of the program; what the theorem states of it
  is that the returned pair, as a function of the time step, starts at \<open>(var0, 0)\<close> and
  solves the two moment equations of the diffusion.
\<close>

theorem var_mv_moments:
  assumes "0 < mr p" and "0 \<le> dt"
  shows "var_mv p var0 dt =
           Inr (theta p + (var0 - theta p) * exp (- (mr p * dt)),
                (var0 * exp (- (mr p * dt)) + theta p * (1 - exp (- (mr p * dt))) / 2)
                  * (vov p)\<^sup>2 * (1 - exp (- (mr p * dt))) / mr p)
       \<and> var_mv p var0 0 = Inr (var0, 0)
       \<and> (\<exists>M V. (\<forall>t. var_mv p var0 t = Inr (M t, V t))
              \<and> (M has_real_derivative mr p * (theta p - M dt)) (at dt)
              \<and> (V has_real_derivative (vov p)\<^sup>2 * M dt - 2 * mr p * V dt) (at dt))"
proof (intro conjI)
  have nz: "mr p \<noteq> 0" using assms by simp
  show "var_mv p var0 dt =
           Inr (theta p + (var0 - theta p) * exp (- (mr p * dt)),
                (var0 * exp (- (mr p * dt)) + theta p * (1 - exp (- (mr p * dt))) / 2)
                  * (vov p)\<^sup>2 * (1 - exp (- (mr p * dt))) / mr p)"
    using nz by (simp add: var_mv_def Let_def)
  show "var_mv p var0 0 = Inr (var0, 0)"
    using nz by (simp add: var_mv_def Let_def)
  let ?M = "\<lambda>t. fst (varianceMoments p var0 t)"
  let ?V = "\<lambda>t. snd (varianceMoments p var0 t)"
  have "\<forall>t. var_mv p var0 t = Inr (?M t, ?V t)"
    using nz by (simp add: var_mv_regular)
  moreover have "(?M has_real_derivative mr p * (theta p - ?M dt)) (at dt)"
    by (rule mean_deriv)
  moreover have "(?V has_real_derivative (vov p)\<^sup>2 * ?M dt - 2 * mr p * ?V dt) (at dt)"
    by (rule var_deriv [OF nz])
  ultimately have "(\<forall>t. var_mv p var0 t = Inr (?M t, ?V t))
              \<and> (?M has_real_derivative mr p * (theta p - ?M dt)) (at dt)
              \<and> (?V has_real_derivative (vov p)\<^sup>2 * ?M dt - 2 * mr p * ?V dt) (at dt)"
    by simp
  then show "\<exists>M V. (\<forall>t. var_mv p var0 t = Inr (M t, V t))
              \<and> (M has_real_derivative mr p * (theta p - M dt)) (at dt)
              \<and> (V has_real_derivative (vov p)\<^sup>2 * M dt - 2 * mr p * V dt) (at dt)"
    by - (rule exI [of _ ?M], rule exI [of _ ?V], assumption)
qed

text \<open>The scenario, from the variance \<open>0.1\<close> over one year.\<close>

theorem var_mv_moments_witness:
  "0 < mr scenario \<and> (0::real) \<le> 1 \<and>
   var_mv scenario (1/10) 1 =
     Inr (1/25 + 3/50 * exp (- (3/2)),
          (1/10 * exp (- (3/2)) + 1/25 * (1 - exp (- (3/2))) / 2)
             * (9/100) * (1 - exp (- (3/2))) / (3/2))"
  using var_mv_moments [of scenario 1 "1/10"]
  by (simp add: scenario_def power2_eq_square)

subsection \<open>\<open>varswap\<close>: the fair strike\<close>

text \<open>
  C1. For every parameter set with \<open>mr > 0\<close>, every \<open>texp > 0\<close> and every positive
  \<open>n_per_yr\<close>, the fair strike is the continuous-monitoring strike plus exactly the four
  correction terms of the specification: the rate term, the vol-of-vol term, the cross
  term and the convexity term.
\<close>

theorem varswap_discrete:
  assumes "0 < mr p" and "0 < texp" and "0 < n"
  shows "varswap p texp (Some n) =
           Inr (baseStrike p texp + rateTerm p texp n + vovTerm p n
                + crossTerm p texp n + convexityTerm p texp n)"
proof -
  have a: "mr p * texp \<noteq> 0" using assms by simp
  have b: "mr p / n \<noteq> 0" using assms by simp
  have c: "exp (- (mr p / n)) \<noteq> 1" using assms by simp
  have d: "1 + exp (- (mr p / n)) \<noteq> 0"
    using exp_gt_zero [of "- (mr p / n)"] by linarith
  show ?thesis
    using assms a b c d
    by (simp add: varswap_def baseStrike_def rateTerm_def vovTerm_def crossTerm_def
        convexityTerm_def Let_def)
qed

text \<open>The scenario with monthly monitoring over one year.\<close>

theorem varswap_discrete_witness:
  "0 < mr scenario \<and> (0::real) < 1 \<and> (0::real) < 12 \<and>
   varswap scenario 1 (Some 12) =
     Inr (baseStrike scenario 1 + rateTerm scenario 1 12 + vovTerm scenario 12
          + crossTerm scenario 1 12 + convexityTerm scenario 1 12)"
  using varswap_discrete [of scenario 1 12]
  by (simp add: scenario_def)

text \<open>
  C4. For every parameter set with \<open>mr > 0\<close> and every \<open>texp > 0\<close>, the fair strike
  without a monitoring frequency is exactly the mean that \<open>avgvar_mv\<close> returns at the
  current variance level \<open>sigma\<close>, whether \<open>var0\<close> is left out or passed as \<open>sigma\<close>,
  and no correction term is added to it.
\<close>

theorem varswap_continuous:
  assumes "0 < mr p" and "0 < texp"
  shows "\<exists>m v. avgvar_mv p texp None = Inr (m, v)
             \<and> avgvar_mv p texp (Some (sigma p)) = Inr (m, v)
             \<and> varswap p texp None = Inr m
             \<and> m = theta p + (sigma p - theta p) * (1 - exp (- (mr p * texp))) / (mr p * texp)"
proof -
  have reg: "mr p * texp \<noteq> 0" using assms by simp
  obtain m v where mv: "averageVarianceMoments p texp (sigma p) = (m, v)"
    by (cases "averageVarianceMoments p texp (sigma p)")
  then have m: "m = theta p + (sigma p - theta p) * (1 - exp (- (mr p * texp))) / (mr p * texp)"
    by (simp add: averageVarianceMoments_def Let_def)
  have "varswap p texp None = Inr m"
    using m by (simp add: varswap_continuous_regular [OF reg] baseStrike_def Let_def)
  then show ?thesis
    using mv m by (simp add: avgvar_mv_regular [OF reg] py_or_simps py_or_same)
qed

text \<open>In the scenario \<open>sigma = theta\<close>, so the strike is \<open>theta = 0.04\<close>.\<close>

theorem varswap_continuous_witness:
  "0 < mr scenario \<and> (0::real) < 1 \<and>
   avgvar_mv scenario 1 None = avgvar_mv scenario 1 (Some (1/25)) \<and>
   (\<exists>v. avgvar_mv scenario 1 None = Inr (1/25, v)) \<and>
   varswap scenario 1 None = Inr (1/25)"
  using varswap_continuous [of scenario 1]
  by (auto simp: scenario_def)

subsection \<open>\<open>avgvar_mv\<close>: the moments of the average variance\<close>

text \<open>
  C2. For every parameter set with \<open>mr > 0\<close>, every \<open>texp > 0\<close> and every supplied
  \<open>var0\<close>, \<open>avgvar_mv\<close> is to return the mean and the variance of the specification at
  that \<open>var0\<close>, and at \<open>sigma\<close> when \<open>var0\<close> is left out. By \<open>avgvar_mv_regular\<close> it does
  so for every supplied \<open>var0\<close> other than zero. A supplied zero is falsy, and
  \<^verbatim>\<open>var0 or self.sigma\<close> replaces it by \<open>sigma\<close>: in the scenario the call with
  \<open>var0 = 0\<close> returns the moments at \<open>0.04\<close>, with the mean \<open>0.04\<close>, where the formula
  at \<open>var0 = 0\<close> has a mean below \<open>0.04\<close>.
\<close>

theorem avgvar_mv_supplied_zero:
  "avgvar_mv scenario 1 (Some 0) = Inr (averageVarianceMoments scenario 1 (1/25)) \<and>
   fst (averageVarianceMoments scenario 1 (1/25)) = 1/25 \<and>
   fst (averageVarianceMoments scenario 1 0) < 1/25"
  by (simp add: avgvar_mv_regular py_or_def scenario_def averageVarianceMoments_def Let_def)

text \<open>
  C9. For every parameter set with \<open>mr > 0\<close> and every \<open>texp > 0\<close>, a supplied
  \<open>var0 = 0\<close> gives the same result as no \<open>var0\<close>: the formulas are evaluated at
  \<open>sigma\<close>. They are then never evaluated at \<open>var0 = 0\<close>, whatever the argument,
  provided that \<open>sigma\<close> itself is not zero.
\<close>

theorem avgvar_mv_zero_is_default:
  assumes "0 < mr p" and "0 < texp"
  shows "avgvar_mv p texp (Some 0) = avgvar_mv p texp None
       \<and> avgvar_mv p texp (Some 0) = Inr (averageVarianceMoments p texp (sigma p))
       \<and> (sigma p \<noteq> 0 \<longrightarrow> (\<forall>arg. py_or arg (sigma p) \<noteq> 0))"
proof -
  have reg: "mr p * texp \<noteq> 0" using assms by simp
  have "\<forall>arg. py_or arg (sigma p) \<noteq> 0" if "sigma p \<noteq> 0"
    using that by (auto simp: py_or_def split: option.splits)
  then show ?thesis
    by (simp add: avgvar_mv_regular [OF reg] py_or_simps)
qed

theorem avgvar_mv_zero_is_default_witness:
  "0 < mr scenario \<and> (0::real) < 1 \<and> sigma scenario \<noteq> 0 \<and>
   avgvar_mv scenario 1 (Some 0) = avgvar_mv scenario 1 None \<and>
   avgvar_mv scenario 1 (Some 0) = Inr (averageVarianceMoments scenario 1 (1/25)) \<and>
   (\<forall>arg. py_or arg (sigma scenario) \<noteq> 0)"
  using avgvar_mv_zero_is_default [of scenario 1]
  by (auto simp: scenario_def)

text \<open>
  With \<open>sigma = 0\<close> the substitute for a supplied zero is zero again, and the formulas
  are evaluated at \<open>var0 = 0\<close>.
\<close>

theorem avgvar_mv_at_zero_when_sigma_zero:
  "0 < mr (scenario\<lparr>sigma := 0\<rparr>) \<and>
   py_or (Some 0) (sigma (scenario\<lparr>sigma := 0\<rparr>)) = 0 \<and>
   avgvar_mv (scenario\<lparr>sigma := 0\<rparr>) 1 (Some 0)
     = Inr (averageVarianceMoments (scenario\<lparr>sigma := 0\<rparr>) 1 0)"
  by (simp add: avgvar_mv_regular py_or_def scenario_def)

text \<open>
  The variance formula of the specification, read over the reals, is not negative for
  positive \<open>mr\<close>, \<open>theta\<close>, \<open>var0\<close> and \<open>texp\<close>: its bracket is a non-negative
  combination of \<open>var0\<close> and \<open>theta\<close>, by \<open>sinh a \<ge> a\<close>. This is a fact about the
  formula and not about the number that \<open>avgvar_mv\<close> returns: the source evaluates the
  bracket in binary64 as a difference of nearly equal numbers, and for a small
  \<open>mr * texp\<close> what is left is rounding noise of either sign. With \<open>mr = 1.5\<close>,
  \<open>theta = 0.04\<close>, \<open>vov = 0.3\<close>, \<open>var0 = 0.1\<close> and \<open>texp = 1e-6\<close> the binary64
  evaluation of the same statements gives the variance \<open>-1.12e-09\<close>. The sign of the
  returned variance is a property of that rounding and is not stated in this
  development.
\<close>

lemma averageVarianceMoments_variance_nonneg:
  assumes "0 < mr p" and "0 \<le> theta p" and "0 \<le> var0" and "0 < texp"
  shows "0 \<le> snd (averageVarianceMoments p texp var0)"
proof -
  have a: "0 < mr p * texp" using assms by simp
  have raw: "0 \<le> (theta p - 2 * (var0 - theta p) * exp (- (mr p * texp)))
               + (1 - exp (- (mr p * texp)))
                 * (var0 - 2.5 * theta p + (var0 - theta p / 2) * exp (- (mr p * texp)))
                 / (mr p * texp)"
    using assms by (intro rawVar_nonneg [OF a _ _ refl]) simp_all
  show ?thesis
    unfolding averageVarianceMoments_def Let_def snd_conv
    using raw assms(4) by (intro mult_nonneg_nonneg) simp_all
qed

subsection \<open>\<open>price\<close>: the approximation of Ball and Roma\<close>

text \<open>The average variance of the scenario has the mean \<open>0.04\<close>, at any order.\<close>

lemma scenario_avgvar:
  "\<exists>v. avgvar_mv (scenario\<lparr>order := k\<rparr>) 1 None = Inr (1/25, v)"
  by (simp add: avgvar_mv_def scenario_def py_or_def Let_def)

lemma sqrt_scenario: "sqrt (1/25) = 1/5"
  by (rule real_sqrt_unique) (simp_all add: power2_eq_square)

text \<open>
  C3. For every parameter set with \<open>mr > 0\<close> and every call with \<open>texp > 0\<close>, at
  order 2 the price is the price of the Black-Scholes pricer built with the volatility
  \<open>sqrt m\<close> and the model's \<open>intr\<close> and \<open>divr\<close>, plus \<open>0.5 * v\<close> times the second
  derivative of that pricer, where \<open>(m, v)\<close> is what \<open>avgvar_mv\<close> returns at the
  current variance level. The square root of a negative \<open>m\<close> is a NaN, and so is the
  price then.
\<close>

theorem price_order_2:
  assumes "0 < mr p" and "0 < texp" and "order p = 2"
  shows "\<exists>m v. avgvar_mv p texp None = Inr (m, v) \<and>
           snd (price Bsm p strike spot texp cp) =
             (if m < 0 then Inl NotANumber
              else Inr (bsm_price (Bsm (sqrt m) (intr p) (divr p)) strike spot texp (cp_arg cp)
                        + 0.5 * v * d2_var (Bsm (sqrt m) (intr p) (divr p))
                                      strike spot texp (cp_arg cp)))"
proof -
  obtain m v where mv: "averageVarianceMoments p texp (sigma p) = (m, v)"
    by (cases "averageVarianceMoments p texp (sigma p)")
  have reg: "mr p * texp \<noteq> 0" using assms by simp
  have "avgvar_mv p texp None = Inr (m, v)"
    using mv by (simp add: avgvar_mv_regular [OF reg] py_or_simps)
  moreover have "snd (price Bsm p strike spot texp cp) =
             (if m < 0 then Inl NotANumber
              else Inr (bsm_price (Bsm (sqrt m) (intr p) (divr p)) strike spot texp (cp_arg cp)
                        + 0.5 * v * d2_var (Bsm (sqrt m) (intr p) (divr p))
                                      strike spot texp (cp_arg cp)))"
    using price_regular [OF reg mv] assms(3) by (simp add: returned_def)
  ultimately show ?thesis by blast
qed

text \<open>
  The scenario at the money, with the stand-in pricer: the volatility is
  \<open>sqrt 0.04 = 0.2\<close>, the base price \<open>0.2 * 100\<close>, the result \<open>20 + 0.5 * v * 3\<close>.
\<close>

theorem price_order_2_witness:
  "0 < mr scenario \<and> (0::real) < 1 \<and> order scenario = 2 \<and>
   (\<exists>v. avgvar_mv scenario 1 None = Inr (1/25, v) \<and>
        snd (price toyBsm scenario 100 100 1 None) = Inr (20 + 0.5 * v * 3))"
proof -
  have h: "0 < mr scenario" "(0::real) < 1" "order scenario = 2"
    by (simp_all add: scenario_def)
  obtain m v where mv: "avgvar_mv scenario 1 None = Inr (m, v)"
    and pr: "snd (price toyBsm scenario 100 100 1 None) =
             (if m < 0 then Inl NotANumber
              else Inr (bsm_price (toyBsm (sqrt m) (intr scenario) (divr scenario))
                          100 100 1 (cp_arg None)
                        + 0.5 * v * d2_var (toyBsm (sqrt m) (intr scenario) (divr scenario))
                                      100 100 1 (cp_arg None)))"
    using price_order_2 [OF h, of toyBsm 100 100 None] by blast
  have m: "m = 1/25"
    using mv scenario_avgvar [of 2] by (auto simp: scenario_def)
  have "snd (price toyBsm scenario 100 100 1 None) = Inr (20 + 0.5 * v * 3)"
    using pr m by (simp add: toyBsm_def sqrt_scenario)
  then show ?thesis using h mv m by blast
qed









end
